theory Spec2Isabelle
  imports Main "HOL-Library.Sublist"
begin

section \<open>JavaScript values\<close>

text \<open>
  The values that travel through the dispatch core: tool arguments, handler results and
  thrown values. A number is modelled by its mathematical value and only integers are
  represented; a string is the list of the bytes of its UTF-8 encoding; an object is the
  list of its own enumerable properties in enumeration order.
\<close>

datatype jsval =
    JUndefined
  | JNull
  | JBool bool
  | JNum int
  | JStr string
  | JArr "jsval list"
  | JObj "(string \<times> jsval) list"

type_synonym jsobject = "(string \<times> jsval) list"

text \<open>\<open>ToBoolean\<close>, as used by \<open>!!x\<close>, \<open>!x\<close> and \<open>x || y\<close>.\<close>

fun truthy :: "jsval \<Rightarrow> bool" where
  "truthy JUndefined = False"
| "truthy JNull = False"
| "truthy (JBool b) = b"
| "truthy (JNum n) = (n \<noteq> 0)"
| "truthy (JStr s) = (s \<noteq> [])"
| "truthy (JArr xs) = True"
| "truthy (JObj ps) = True"

text \<open>Property read \<open>obj.key\<close> on an object: a missing property reads as \<open>undefined\<close>.\<close>

definition get_prop :: "jsobject \<Rightarrow> string \<Rightarrow> jsval" where
  "get_prop obj k = (case map_of obj k of None \<Rightarrow> JUndefined | Some v \<Rightarrow> v)"

subsection \<open>Numbers and strings as text\<close>

definition digit_char :: "nat \<Rightarrow> char" where
  "digit_char d = char_of (48 + d)"

fun show_nat :: "nat \<Rightarrow> string" where
  "show_nat n = (if n < 10 then [digit_char n] else show_nat (n div 10) @ [digit_char (n mod 10)])"

declare show_nat.simps [simp del]

text \<open>\<open>Number::toString\<close> on an integer value.\<close>

definition show_int :: "int \<Rightarrow> string" where
  "show_int i = (if i < 0 then CHR ''-'' # show_nat (nat (- i)) else show_nat (nat i))"

text \<open>\<open>Array.prototype.join\<close> on a list of strings.\<close>

fun join :: "string \<Rightarrow> string list \<Rightarrow> string" where
  "join sep [] = []"
| "join sep [x] = x"
| "join sep (x # y # ys) = x @ sep @ join sep (y # ys)"

text \<open>
  \<open>String(v)\<close>: an array joins the strings of its elements with commas, \<open>undefined\<close> and
  \<open>null\<close> elements giving the empty string; a plain object gives \<open>[object Object]\<close>.
\<close>

fun String_js :: "jsval \<Rightarrow> string"
  and String_elems :: "jsval list \<Rightarrow> string list" where
  "String_js JUndefined = ''undefined''"
| "String_js JNull = ''null''"
| "String_js (JBool b) = (if b then ''true'' else ''false'')"
| "String_js (JNum n) = show_int n"
| "String_js (JStr s) = s"
| "String_js (JArr xs) = join '','' (String_elems xs)"
| "String_js (JObj ps) = ''[object Object]''"
| "String_elems [] = []"
| "String_elems (x # xs) =
     (if x = JUndefined \<or> x = JNull then [] else String_js x) # String_elems xs"

subsection \<open>Thrown values and promises\<close>

text \<open>
  A thrown value is either an instance of \<open>Error\<close> (or of a subclass), of which the
  model keeps the message, or any other value. An \<open>async\<close> function resolves to a value
  (\<open>Inr\<close>) or rejects with a thrown value (\<open>Inl\<close>).
\<close>

datatype thrown = JsError string | NonError jsval

type_synonym 'a promise = "thrown + 'a"

text \<open>The calls made to the logger, in order.\<close>

datatype log_call = LogDebug string | LogInfo string | LogError string

section \<open>Tool descriptors, handlers and the registry\<close>

record MCPTool =
  name :: string
  description :: string
  inputSchema :: jsval

text \<open>
  A handler is a descriptor with an \<open>execute\<close> operation. The execution context \<open>'ctx\<close>
  stands for everything the handler reaches through \<open>context\<close>, the state of the
  workspace included.
\<close>

record 'ctx ToolHandler = MCPTool +
  execute :: "jsobject \<Rightarrow> 'ctx \<Rightarrow> jsval promise"

text \<open>
  Modelled from the spec: \<open>DefaultToolRegistry\<close> (core/registry.js, not among the
  sources). The spec describes a mapping from tool name to handler with \<open>register\<close>,
  which fails when the name is already present, \<open>get\<close>, which returns the handler or
  nothing, and \<open>getAll\<close>, which lists the handlers in registration order. The model keeps
  the handlers in registration order.
\<close>

type_synonym 'ctx ToolRegistry = "'ctx ToolHandler list"

datatype registry_error = DuplicateTool string

definition registry_empty :: "'ctx ToolRegistry" where
  "registry_empty = []"

definition registry_has :: "'ctx ToolRegistry \<Rightarrow> string \<Rightarrow> bool" where
  "registry_has reg n = (n \<in> set (map name reg))"

text \<open>
  \<open>register\<close> returns the failure, if any, and the registry after the call.
\<close>

definition register :: "'ctx ToolHandler \<Rightarrow> 'ctx ToolRegistry \<Rightarrow> registry_error option \<times> 'ctx ToolRegistry" where
  "register h reg =
     (if registry_has reg (name h) then (Some (DuplicateTool (name h)), reg)
      else (None, reg @ [h]))"

definition registry_get :: "'ctx ToolRegistry \<Rightarrow> string \<Rightarrow> 'ctx ToolHandler option" where
  "registry_get reg n = find (\<lambda>h. name h = n) reg"

definition getAll :: "'ctx ToolRegistry \<Rightarrow> 'ctx ToolHandler list" where
  "getAll reg = reg"

text \<open>
  \<open>SiyuanMCPServer.registerHandlers\<close>: registers the handlers one after the other and
  logs each registration; a failing \<open>register\<close> ends the loop. The list of handlers is
  the result of \<open>createAllHandlers()\<close>.
\<close>

fun registerHandlers ::
  "'ctx ToolHandler list \<Rightarrow> 'ctx ToolRegistry \<times> log_call list \<Rightarrow>
     registry_error option \<times> 'ctx ToolRegistry \<times> log_call list" where
  "registerHandlers [] (reg, lg) = (None, reg, lg)"
| "registerHandlers (h # hs) (reg, lg) =
     (case register h reg of
        (Some e, reg') \<Rightarrow> (Some e, reg', lg)
      | (None, reg') \<Rightarrow>
          registerHandlers hs (reg', lg @ [LogDebug (''Registered tool: '' @ name h)]))"

text \<open>The registry after a sequence of \<open>register\<close> calls, failed ones included.\<close>

fun register_calls :: "'ctx ToolHandler list \<Rightarrow> 'ctx ToolRegistry \<Rightarrow> 'ctx ToolRegistry" where
  "register_calls [] reg = reg"
| "register_calls (h # hs) reg = register_calls hs (snd (register h reg))"

section \<open>JSON.stringify\<close>

definition hex_digit :: "nat \<Rightarrow> char" where
  "hex_digit d = (if d < 10 then char_of (48 + d) else char_of (87 + d))"

text \<open>
  One code unit of \<open>QuoteJSONString\<close>: backspace, tab, line feed, form feed, carriage
  return, the double quote and the backslash have two-character escapes, the other
  control characters are written \<open>\u00XX\<close>, everything else is copied.
\<close>

definition quote_char :: "char \<Rightarrow> string" where
  "quote_char c =
     (let n = (of_char c :: nat) in
      if n = 8 then [CHR 0x5C, CHR ''b'']
      else if n = 9 then [CHR 0x5C, CHR ''t'']
      else if n = 10 then [CHR 0x5C, CHR ''n'']
      else if n = 12 then [CHR 0x5C, CHR ''f'']
      else if n = 13 then [CHR 0x5C, CHR ''r'']
      else if n = 34 then [CHR 0x5C, CHR 0x22]
      else if n = 92 then [CHR 0x5C, CHR 0x5C]
      else if n < 32 then [CHR 0x5C, CHR ''u'', CHR ''0'', CHR ''0'', hex_digit (n div 16), hex_digit (n mod 16)]
      else [c])"

definition QuoteJSONString :: "string \<Rightarrow> string" where
  "QuoteJSONString s = CHR 0x22 # concat (map quote_char s) @ [CHR 0x22]"

text \<open>The gap of \<open>JSON.stringify(value, null, 2)\<close>: two spaces.\<close>

definition gap :: string where
  "gap = ''  ''"

text \<open>
  \<open>SerializeJSONProperty\<close> with the current indentation: \<open>None\<close> is the result
  \<open>undefined\<close>. In an array an element without a serialization is written \<open>null\<close>; in
  an object a property without a serialization is left out.
\<close>

fun SerializeJSONProperty :: "string \<Rightarrow> jsval \<Rightarrow> string option"
  and SerializeJSONArray :: "string \<Rightarrow> jsval list \<Rightarrow> string list"
  and SerializeJSONObject :: "string \<Rightarrow> (string \<times> jsval) list \<Rightarrow> string list" where
  "SerializeJSONProperty ind JUndefined = None"
| "SerializeJSONProperty ind JNull = Some ''null''"
| "SerializeJSONProperty ind (JBool b) = Some (if b then ''true'' else ''false'')"
| "SerializeJSONProperty ind (JNum n) = Some (show_int n)"
| "SerializeJSONProperty ind (JStr s) = Some (QuoteJSONString s)"
| "SerializeJSONProperty ind (JArr xs) =
     Some (if xs = [] then ''[]''
           else ''['' @ [CHR 0x0A] @ (ind @ gap)
                @ join ('','' @ [CHR 0x0A] @ (ind @ gap)) (SerializeJSONArray (ind @ gap) xs)
                @ [CHR 0x0A] @ ind @ '']'')"
| "SerializeJSONProperty ind (JObj ps) =
     Some (if SerializeJSONObject (ind @ gap) ps = [] then ''{}''
           else ''{'' @ [CHR 0x0A] @ (ind @ gap)
                @ join ('','' @ [CHR 0x0A] @ (ind @ gap)) (SerializeJSONObject (ind @ gap) ps)
                @ [CHR 0x0A] @ ind @ ''}'')"
| "SerializeJSONArray ind [] = []"
| "SerializeJSONArray ind (x # xs) =
     (case SerializeJSONProperty ind x of None \<Rightarrow> ''null'' | Some t \<Rightarrow> t)
       # SerializeJSONArray ind xs"
| "SerializeJSONObject ind [] = []"
| "SerializeJSONObject ind ((k, v) # ps) =
     (case SerializeJSONProperty ind v of
        None \<Rightarrow> SerializeJSONObject ind ps
      | Some t \<Rightarrow> (QuoteJSONString k @ '': '' @ t) # SerializeJSONObject ind ps)"

text \<open>\<open>JSON.stringify(v, null, 2)\<close>.\<close>

definition JSON_stringify :: "jsval \<Rightarrow> string option" where
  "JSON_stringify v = SerializeJSONProperty [] v"

section \<open>JSON.parse\<close>

text \<open>
  The reader that the round trip of a serialized result goes through. It is the built-in
  of the language, modelled after the JSON grammar on the values of \<open>jsval\<close>.
\<close>

















section \<open>The request handlers of SiyuanMCPServer\<close>

text \<open>A content block \<open>{type: 'text', text}\<close>.\<close>

datatype content_block = TextBlock (block_text: string)

text \<open>
  The response of the CallTool handler. \<open>isError\<close> is \<open>None\<close> when the object has no such
  property.
\<close>

record CallToolResult =
  content :: "content_block list"
  isError :: "bool option"

record ListToolsResult =
  tools :: "MCPTool list"

datatype prompt_message = PromptMessage (role: string) (message: content_block)

record GetPromptResult =
  messages :: "prompt_message list"

text \<open>The ListTools handler.\<close>

definition list_tools :: "'ctx ToolRegistry \<Rightarrow> ListToolsResult promise \<times> log_call list" where
  "list_tools reg =
     (let ts = map (\<lambda>handler. \<lparr>name = name handler, description = description handler,
                                inputSchema = inputSchema handler\<rparr>) (getAll reg)
      in (Inr \<lparr>tools = ts\<rparr>, [LogDebug (''Listing '' @ show_nat (length ts) @ '' tools'')]))"

text \<open>
  The GetPrompt handler. \<open>guide\<close> is the text that \<open>getUsageGuide()\<close> returns, a constant
  of the server.
\<close>

definition get_prompt :: "string \<Rightarrow> string \<Rightarrow> GetPromptResult promise" where
  "get_prompt guide nm =
     (if nm = ''siyuan-usage-guide'' then
        Inr \<lparr>messages =
               [PromptMessage ''user'' (TextBlock ''Please read the SiYuan MCP server usage guide.''),
                PromptMessage ''assistant'' (TextBlock guide)]\<rparr>
      else Inl (JsError (''Unknown prompt: '' @ nm)))"

text \<open>
  The text of a successful result. \<open>JSON.stringify\<close> gives a string for every modelled
  value but \<open>undefined\<close>, which the first branch takes.
\<close>

definition result_text :: "jsval \<Rightarrow> string" where
  "result_text result =
     (if result = JUndefined then ''Success''
      else case result of
             JStr s \<Rightarrow> s
           | _ \<Rightarrow> the (JSON_stringify result))"

text \<open>
  The \<open>try\<close> block of the CallTool handler. \<open>args\<close> is \<open>None\<close> when the request has no
  \<open>arguments\<close>; an object is truthy, so \<open>args || {}\<close> is the empty object only then.
\<close>

definition call_tool_try ::
  "'ctx ToolRegistry \<Rightarrow> 'ctx \<Rightarrow> string \<Rightarrow> jsobject option \<Rightarrow> CallToolResult promise" where
  "call_tool_try reg context nm args =
     (case registry_get reg nm of
        None \<Rightarrow> Inl (JsError (''Unknown tool: '' @ nm))
      | Some handler \<Rightarrow>
          (case execute handler (case args of None \<Rightarrow> [] | Some a \<Rightarrow> a) context of
             Inl e \<Rightarrow> Inl e
           | Inr result \<Rightarrow> Inr \<lparr>content = [TextBlock (result_text result)], isError = None\<rparr>))"

text \<open>\<open>error instanceof Error ? error.message : String(error)\<close>\<close>

definition errorMessage :: "thrown \<Rightarrow> string" where
  "errorMessage error = (case error of JsError m \<Rightarrow> m | NonError v \<Rightarrow> String_js v)"

text \<open>The CallTool handler: the response and the calls to the logger.\<close>

definition call_tool ::
  "'ctx ToolRegistry \<Rightarrow> 'ctx \<Rightarrow> string \<Rightarrow> jsobject option \<Rightarrow> CallToolResult promise \<times> log_call list" where
  "call_tool reg context nm args =
     (case call_tool_try reg context nm args of
        Inr response \<Rightarrow> (Inr response, [LogInfo (''Tool called: '' @ nm)])
      | Inl error \<Rightarrow>
          (Inr \<lparr>content = [TextBlock (''Error: '' @ errorMessage error)], isError = Some True\<rparr>,
           [LogInfo (''Tool called: '' @ nm),
            LogError (''Tool execution failed: '' @ errorMessage error)]))"

section \<open>Tool handlers\<close>

text \<open>
  The operations of the workspace client that the handlers below call through
  \<open>context.siyuan\<close>. They are collaborators: each resolves to a value or rejects.
\<close>

record ExecutionContext =
  block_insertBlockBefore :: "jsval \<Rightarrow> jsval \<Rightarrow> jsval promise"
  block_insertBlockAfter :: "jsval \<Rightarrow> jsval \<Rightarrow> jsval promise"
  search_query :: "string \<Rightarrow> jsobject list promise"

subsection \<open>insert_block\<close>

definition InsertBlockHandler_execute :: "jsobject \<Rightarrow> ExecutionContext \<Rightarrow> jsval promise" where
  "InsertBlockHandler_execute args context =
     (let hasBefore = truthy (get_prop args ''before_id'');
          hasAfter = truthy (get_prop args ''after_id'')
      in if \<not> hasBefore \<and> \<not> hasAfter then
           Inl (JsError ''Must provide exactly one of: before_id or after_id'')
         else if hasBefore \<and> hasAfter then
           Inl (JsError (''Cannot provide both before_id and after_id ''
                         @ [CHR 0xE2, CHR 0x80, CHR 0x94] @ '' choose only one''))
         else
           (case (if hasBefore then
                    block_insertBlockBefore context (get_prop args ''before_id'') (get_prop args ''content'')
                  else
                    block_insertBlockAfter context (get_prop args ''after_id'') (get_prop args ''content''))
            of Inl e \<Rightarrow> Inl e
             | Inr blockId \<Rightarrow> Inr (JObj [(''block_id'', blockId)])))"

definition InsertBlockHandler :: "ExecutionContext ToolHandler" where
  "InsertBlockHandler =
     \<lparr>name = ''insert_block'',
      description = ''Insert a new block before or after an existing block. Provide exactly one of before_id or after_id to control placement.'',
      inputSchema = JObj
        [(''type'', JStr ''object''),
         (''properties'', JObj
            [(''content'', JObj
                [(''type'', JStr ''string''),
                 (''description'', JStr ''Markdown content for the new block'')]),
             (''before_id'', JObj
                [(''type'', JStr ''string''),
                 (''description'', JStr ''OPTION 1: Insert BEFORE this block ID. Cannot be used together with after_id.'')]),
             (''after_id'', JObj
                [(''type'', JStr ''string''),
                 (''description'', JStr ''OPTION 2: Insert AFTER this block ID. Cannot be used together with before_id.'')])]),
         (''required'', JArr [JStr ''content''])],
      execute = InsertBlockHandler_execute\<rparr>"

subsection \<open>find_block_in_document\<close>






subsection \<open>Example workspaces\<close>

text \<open>
  A workspace in which an insertion before a block succeeds, an insertion after a block
  is refused, and a query returns 21 rows.
\<close>

definition example_row :: jsobject where
  "example_row =
     [(''id'', JStr ''20240101120000-abc1234''), (''root_id'', JStr ''20240101115900-doc0001''),
      (''type'', JStr ''p''), (''content'', JStr ''note'')]"

definition example_context :: ExecutionContext where
  "example_context =
     \<lparr>block_insertBlockBefore = (\<lambda>previousId content. Inr (JStr ''20240101120000-abc1234'')),
      block_insertBlockAfter = (\<lambda>nextId content. Inl (JsError ''Failed to insert block: not found'')),
      search_query = (\<lambda>sql. Inr (replicate 21 example_row))\<rparr>"



text \<open>Two handlers outside the repository, for the scenarios of the specification.\<close>

definition echo_handler :: "unit ToolHandler" where
  "echo_handler =
     \<lparr>name = ''echo'', description = ''Return the value argument'',
      inputSchema = JObj [(''type'', JStr ''object'')],
      execute = (\<lambda>args context. Inr (get_prop args ''value''))\<rparr>"

definition failing_handler :: "unit ToolHandler" where
  "failing_handler =
     \<lparr>name = ''fail'', description = ''Always fail'',
      inputSchema = JObj [(''type'', JStr ''object'')],
      execute = (\<lambda>args context. Inl (JsError ''need exactly one of A or B''))\<rparr>"

section \<open>Properties of the registry\<close>

lemma find_name_in_distinct:
  "distinct (map name reg) \<Longrightarrow> h \<in> set reg \<Longrightarrow> find (\<lambda>x. name x = name h) reg = Some h"
  by (induction reg) (auto simp: image_iff)

lemma registerHandlers_distinct:
  "distinct (map name (reg @ hs)) \<Longrightarrow>
   registerHandlers hs (reg, lg) =
     (None, reg @ hs, lg @ map (\<lambda>h. LogDebug (''Registered tool: '' @ name h)) hs)"
proof (induction hs arbitrary: reg lg)
  case Nil
  then show ?case by simp
next
  case (Cons h hs)
  from Cons.prems have fresh: "\<not> registry_has reg (name h)"
    by (auto simp: registry_has_def)
  from Cons.prems have "distinct (map name ((reg @ [h]) @ hs))" by simp
  from Cons.IH [OF this] fresh show ?case
    by (simp add: register_def)
qed

lemma register_calls_distinct:
  "distinct (map name reg) \<Longrightarrow> distinct (map name (register_calls hs reg))"
  by (induction hs arbitrary: reg) (auto simp: register_def registry_has_def)

lemma registerHandlers_duplicate:
  "distinct (map name reg) \<Longrightarrow> \<not> distinct (map name (reg @ hs)) \<Longrightarrow>
   \<exists>e. fst (registerHandlers hs (reg, lg)) = Some e"
proof (induction hs arbitrary: reg lg)
  case Nil
  then show ?case by simp
next
  case (Cons h hs)
  show ?case
  proof (cases "registry_has reg (name h)")
    case True
    then show ?thesis by (simp add: register_def)
  next
    case False
    with Cons.prems have d: "distinct (map name (reg @ [h]))"
      by (auto simp: registry_has_def)
    from Cons.prems have "\<not> distinct (map name ((reg @ [h]) @ hs))" by simp
    from Cons.IH [OF d this] False show ?thesis
      by (simp add: register_def)
  qed
qed

text \<open>
  C5. When the handlers passed to \<open>registerHandlers\<close> have pairwise distinct names, every
  registration succeeds, \<open>getAll\<close> returns the handlers in registration order, and \<open>get\<close>
  of each registered name returns the handler registered under it.
\<close>

theorem registry_registration_order:
  assumes "distinct (map name hs)"
  shows "\<exists>reg lg. registerHandlers hs (registry_empty, []) = (None, reg, lg)
           \<and> getAll reg = hs
           \<and> (\<forall>h \<in> set hs. registry_get reg (name h) = Some h)"
  using assms registerHandlers_distinct [of "[]" hs "[]"]
  by (simp add: registry_empty_def getAll_def registry_get_def find_name_in_distinct)

theorem registry_registration_order_witness:
  "distinct (map name [echo_handler, failing_handler])
   \<and> (\<exists>reg lg. registerHandlers [echo_handler, failing_handler] (registry_empty, []) = (None, reg, lg)
         \<and> getAll reg = [echo_handler, failing_handler]
         \<and> (\<forall>h \<in> set [echo_handler, failing_handler]. registry_get reg (name h) = Some h))"
proof -
  have d: "distinct (map name [echo_handler, failing_handler])"
    by (simp add: echo_handler_def failing_handler_def)
  from registry_registration_order [OF d] d show ?thesis by simp
qed

text \<open>
  C6. After any sequence of \<open>register\<close> calls on an empty registry the registered names
  are pairwise distinct; \<open>register\<close> with a name that is already present fails and
  returns the registry as it was; and \<open>registerHandlers\<close>, which runs at startup, fails
  when two of its handlers share a name.
\<close>

theorem registry_rejects_duplicates:
  "distinct (map name (getAll (register_calls hs registry_empty)))
   \<and> (registry_has (register_calls hs registry_empty) (name h) \<longrightarrow>
        register h (register_calls hs registry_empty)
          = (Some (DuplicateTool (name h)), register_calls hs registry_empty))
   \<and> (\<not> distinct (map name hs) \<longrightarrow>
        (\<exists>e. fst (registerHandlers hs (registry_empty, [])) = Some e))"
  using register_calls_distinct [of "[]" hs] registerHandlers_duplicate [of "[]" hs "[]"]
  by (simp add: registry_empty_def getAll_def register_def)

theorem registry_rejects_duplicates_witness:
  "registry_has (register_calls [echo_handler, failing_handler, echo_handler] registry_empty) (name echo_handler)
   \<and> \<not> distinct (map name [echo_handler, failing_handler, echo_handler])
   \<and> getAll (register_calls [echo_handler, failing_handler, echo_handler] registry_empty)
        = [echo_handler, failing_handler]
   \<and> register echo_handler (register_calls [echo_handler, failing_handler, echo_handler] registry_empty)
        = (Some (DuplicateTool ''echo''), [echo_handler, failing_handler])
   \<and> fst (registerHandlers [echo_handler, failing_handler, echo_handler] (registry_empty, []))
        = Some (DuplicateTool ''echo'')"
  using registry_rejects_duplicates [of "[echo_handler, failing_handler, echo_handler]" echo_handler]
  by (simp add: registry_empty_def getAll_def register_def registry_has_def
        echo_handler_def failing_handler_def)

section \<open>Properties of the request handlers\<close>

text \<open>
  C7. For every registry the ListTools handler returns \<open>{tools}\<close>, where \<open>tools\<close> holds
  the descriptor \<open>{name, description, inputSchema}\<close> of each handler of \<open>getAll()\<close>, in
  that order; for the empty registry the list is empty.
\<close>

theorem list_tools_descriptors:
  "fst (list_tools reg) = Inr \<lparr>tools = map MCPTool.truncate (getAll reg)\<rparr>
   \<and> length (tools (projr (fst (list_tools reg)))) = length (getAll reg)
   \<and> fst (list_tools registry_empty) = Inr \<lparr>tools = []\<rparr>"
  by (simp add: list_tools_def Let_def MCPTool.truncate_def getAll_def registry_empty_def)

text \<open>
  C8. The GetPrompt handler returns a \<open>messages\<close> payload for the name
  \<open>siyuan-usage-guide\<close>; for every other name it throws an error with the message
  \<open>Unknown prompt: \<close> followed by the name, where the CallTool handler would return an
  error envelope.
\<close>

theorem get_prompt_unknown:
  "(\<exists>ms. get_prompt guide ''siyuan-usage-guide'' = Inr \<lparr>messages = ms\<rparr>)
   \<and> (nm \<noteq> ''siyuan-usage-guide'' \<longrightarrow>
        get_prompt guide nm = Inl (JsError (''Unknown prompt: '' @ nm)))"
  by (simp add: get_prompt_def)

theorem get_prompt_unknown_witness:
  "''insert_block'' \<noteq> ''siyuan-usage-guide''
   \<and> get_prompt ''# SiYuan MCP Server Usage Guide'' ''insert_block''
        = Inl (JsError ''Unknown prompt: insert_block'')"
  using get_prompt_unknown [of "''# SiYuan MCP Server Usage Guide''" "''insert_block''"]
  by simp

text \<open>
  C1. When the handler registered under the requested name rejects with an error whose
  message is \<open>m\<close>, the CallTool handler returns (it does not throw) the envelope whose
  single text block is \<open>Error: \<close> followed by \<open>m\<close> and whose \<open>isError\<close> is true.
\<close>

theorem call_tool_handler_failure:
  assumes "registry_get reg nm = Some h"
    and "execute h (case args of None \<Rightarrow> [] | Some a \<Rightarrow> a) context = Inl (JsError m)"
  shows "fst (call_tool reg context nm args)
           = Inr \<lparr>content = [TextBlock (''Error: '' @ m)], isError = Some True\<rparr>"
  using assms by (simp add: call_tool_def call_tool_try_def errorMessage_def)

theorem call_tool_handler_failure_witness:
  "registry_get (snd (register InsertBlockHandler registry_empty)) ''insert_block''
     = Some InsertBlockHandler
   \<and> execute InsertBlockHandler (case None of None \<Rightarrow> [] | Some a \<Rightarrow> a) example_context
       = Inl (JsError ''Must provide exactly one of: before_id or after_id'')
   \<and> fst (call_tool (snd (register InsertBlockHandler registry_empty)) example_context
            ''insert_block'' None)
       = Inr \<lparr>content = [TextBlock ''Error: Must provide exactly one of: before_id or after_id''],
              isError = Some True\<rparr>"
proof -
  have a: "registry_get (snd (register InsertBlockHandler registry_empty)) ''insert_block''
             = Some InsertBlockHandler"
    by (simp add: registry_get_def register_def registry_empty_def registry_has_def
          InsertBlockHandler_def)
  have b: "execute InsertBlockHandler (case None of None \<Rightarrow> [] | Some a \<Rightarrow> a) example_context
             = Inl (JsError ''Must provide exactly one of: before_id or after_id'')"
    by (simp add: InsertBlockHandler_def InsertBlockHandler_execute_def get_prop_def)
  from call_tool_handler_failure [OF a b] a b show ?thesis by simp
qed

text \<open>
  C3. When the requested name is absent from the registry, the CallTool handler returns
  (it does not throw) an envelope whose \<open>isError\<close> is true and whose text is
  \<open>Error: Unknown tool: \<close> followed by the requested name.
\<close>

theorem call_tool_unknown_tool:
  assumes "registry_get reg nm = None"
  shows "fst (call_tool reg context nm args)
           = Inr \<lparr>content = [TextBlock (''Error: Unknown tool: '' @ nm)], isError = Some True\<rparr>"
  using assms by (simp add: call_tool_def call_tool_try_def errorMessage_def)

theorem call_tool_unknown_tool_witness:
  "registry_get (snd (register InsertBlockHandler registry_empty)) ''delete_block'' = None
   \<and> fst (call_tool (snd (register InsertBlockHandler registry_empty)) example_context
            ''delete_block'' (Some [(''block_id'', JStr ''20240101120000-abc1234'')]))
       = Inr \<lparr>content = [TextBlock ''Error: Unknown tool: delete_block''], isError = Some True\<rparr>"
proof -
  have a: "registry_get (snd (register InsertBlockHandler registry_empty)) ''delete_block'' = None"
    by (simp add: registry_get_def register_def registry_empty_def registry_has_def
          InsertBlockHandler_def)
  from call_tool_unknown_tool [OF a] a show ?thesis by simp
qed

lemma JSON_stringify_defined: "v \<noteq> JUndefined \<Longrightarrow> \<exists>t. JSON_stringify v = Some t"
  by (cases v) (simp_all add: JSON_stringify_def)

text \<open>
  C2, as the code has it. When the handler registered under the requested name resolves,
  the CallTool handler returns an envelope with exactly one text block and without an
  \<open>isError\<close> property: the text is \<open>Success\<close> for \<open>undefined\<close>, the string itself for a
  string, and \<open>JSON.stringify(result, null, 2)\<close> for every other value.
\<close>

theorem call_tool_success:
  assumes "registry_get reg nm = Some h"
    and "execute h (case args of None \<Rightarrow> [] | Some a \<Rightarrow> a) context = Inr result"
  shows "\<exists>t. fst (call_tool reg context nm args) = Inr \<lparr>content = [TextBlock t], isError = None\<rparr>
           \<and> (result = JUndefined \<longrightarrow> t = ''Success'')
           \<and> (\<forall>s. result = JStr s \<longrightarrow> t = s)
           \<and> (result \<noteq> JUndefined \<and> (\<forall>s. result \<noteq> JStr s) \<longrightarrow> JSON_stringify result = Some t)"
proof (cases "result = JUndefined")
  case True
  with assms show ?thesis
    by (simp add: call_tool_def call_tool_try_def result_text_def)
next
  case False
  then obtain t where t: "JSON_stringify result = Some t"
    using JSON_stringify_defined by blast
  with assms False show ?thesis
    by (cases result) (simp_all add: call_tool_def call_tool_try_def result_text_def)
qed

theorem call_tool_success_witness:
  "registry_get (snd (register echo_handler registry_empty)) ''echo'' = Some echo_handler
   \<and> execute echo_handler (case Some [(''value'', JStr ''hi'')] of None \<Rightarrow> [] | Some a \<Rightarrow> a) ()
       = Inr (JStr ''hi'')
   \<and> fst (call_tool (snd (register echo_handler registry_empty)) () ''echo''
            (Some [(''value'', JStr ''hi'')]))
       = Inr \<lparr>content = [TextBlock ''hi''], isError = None\<rparr>"
proof -
  have a: "registry_get (snd (register echo_handler registry_empty)) ''echo'' = Some echo_handler"
    by (simp add: registry_get_def register_def registry_empty_def registry_has_def
          echo_handler_def)
  have b: "execute echo_handler (case Some [(''value'', JStr ''hi'')] of None \<Rightarrow> [] | Some a \<Rightarrow> a) ()
             = Inr (JStr ''hi'')"
    by (simp add: echo_handler_def get_prop_def)
  from call_tool_success [OF a b] a b show ?thesis by auto
qed

text \<open>
  The envelope of a successful \<open>insert_block\<close> call has no \<open>isError\<close> property, so it is
  not the envelope with \<open>isError: false\<close>.
\<close>

theorem call_tool_success_isError_counterexample:
  "fst (call_tool (snd (register InsertBlockHandler registry_empty)) example_context ''insert_block''
          (Some [(''content'', JStr ''hello''), (''before_id'', JStr ''20240101115900-blk0001'')]))
     = Inr \<lparr>content =
              [TextBlock (''{'' @ [CHR 0x0A] @ ''  '' @ [CHR 0x22] @ ''block_id'' @ [CHR 0x22] @ '': ''
                          @ [CHR 0x22] @ ''20240101120000-abc1234'' @ [CHR 0x22] @ [CHR 0x0A] @ ''}'')],
            isError = None\<rparr>
   \<and> isError (projr (fst (call_tool (snd (register InsertBlockHandler registry_empty)) example_context
          ''insert_block''
          (Some [(''content'', JStr ''hello''), (''before_id'', JStr ''20240101115900-blk0001'')]))))
       \<noteq> Some False"
  by (simp add: call_tool_def call_tool_try_def registry_get_def register_def registry_empty_def
        registry_has_def InsertBlockHandler_def InsertBlockHandler_execute_def get_prop_def
        example_context_def result_text_def JSON_stringify_def QuoteJSONString_def quote_char_def
        gap_def)

section \<open>Properties of the tool handlers\<close>

text \<open>
  C9. \<open>insert_block\<close>: when neither \<open>before_id\<close> nor \<open>after_id\<close> is truthy, \<open>execute\<close>
  throws; when both are, it throws; when exactly one is, it calls the insert-before or
  the insert-after operation of the workspace with that id and the content, and resolves
  to \<open>{block_id}\<close> with the id the operation resolves to (a rejection of the operation is
  the rejection of \<open>execute\<close>).
\<close>

theorem insert_block_execute:
  "(\<not> truthy (get_prop args ''before_id'') \<and> \<not> truthy (get_prop args ''after_id'') \<longrightarrow>
      InsertBlockHandler_execute args context
        = Inl (JsError ''Must provide exactly one of: before_id or after_id''))
   \<and> (truthy (get_prop args ''before_id'') \<and> truthy (get_prop args ''after_id'') \<longrightarrow>
      InsertBlockHandler_execute args context
        = Inl (JsError (''Cannot provide both before_id and after_id ''
                        @ [CHR 0xE2, CHR 0x80, CHR 0x94] @ '' choose only one'')))
   \<and> (truthy (get_prop args ''before_id'') \<and> \<not> truthy (get_prop args ''after_id'') \<longrightarrow>
      (\<forall>blockId. block_insertBlockBefore context (get_prop args ''before_id'') (get_prop args ''content'') = Inr blockId
          \<longrightarrow> InsertBlockHandler_execute args context = Inr (JObj [(''block_id'', blockId)]))
      \<and> (\<forall>e. block_insertBlockBefore context (get_prop args ''before_id'') (get_prop args ''content'') = Inl e
          \<longrightarrow> InsertBlockHandler_execute args context = Inl e))
   \<and> (\<not> truthy (get_prop args ''before_id'') \<and> truthy (get_prop args ''after_id'') \<longrightarrow>
      (\<forall>blockId. block_insertBlockAfter context (get_prop args ''after_id'') (get_prop args ''content'') = Inr blockId
          \<longrightarrow> InsertBlockHandler_execute args context = Inr (JObj [(''block_id'', blockId)]))
      \<and> (\<forall>e. block_insertBlockAfter context (get_prop args ''after_id'') (get_prop args ''content'') = Inl e
          \<longrightarrow> InsertBlockHandler_execute args context = Inl e))"
  by (simp add: InsertBlockHandler_execute_def Let_def)

theorem insert_block_execute_witness:
  "\<not> truthy (get_prop [(''content'', JStr ''hello''), (''before_id'', JStr [])] ''before_id'')
   \<and> \<not> truthy (get_prop [(''content'', JStr ''hello''), (''before_id'', JStr [])] ''after_id'')
   \<and> InsertBlockHandler_execute [(''content'', JStr ''hello''), (''before_id'', JStr [])] example_context
       = Inl (JsError ''Must provide exactly one of: before_id or after_id'')
   \<and> truthy (get_prop [(''content'', JStr ''hello''), (''before_id'', JStr ''a''), (''after_id'', JStr ''b'')] ''before_id'')
   \<and> truthy (get_prop [(''content'', JStr ''hello''), (''before_id'', JStr ''a''), (''after_id'', JStr ''b'')] ''after_id'')
   \<and> InsertBlockHandler_execute
         [(''content'', JStr ''hello''), (''before_id'', JStr ''a''), (''after_id'', JStr ''b'')] example_context
       = Inl (JsError (''Cannot provide both before_id and after_id ''
                       @ [CHR 0xE2, CHR 0x80, CHR 0x94] @ '' choose only one''))
   \<and> InsertBlockHandler_execute [(''content'', JStr ''hello''), (''before_id'', JStr ''a'')] example_context
       = Inr (JObj [(''block_id'', JStr ''20240101120000-abc1234'')])
   \<and> InsertBlockHandler_execute [(''content'', JStr ''hello''), (''after_id'', JStr ''b'')] example_context
       = Inl (JsError ''Failed to insert block: not found'')"
  using insert_block_execute [of "[(''content'', JStr ''hello''), (''before_id'', JStr [])]" example_context]
    insert_block_execute [of "[(''content'', JStr ''hello''), (''before_id'', JStr ''a''), (''after_id'', JStr ''b'')]" example_context]
    insert_block_execute [of "[(''content'', JStr ''hello''), (''before_id'', JStr ''a'')]" example_context]
    insert_block_execute [of "[(''content'', JStr ''hello''), (''after_id'', JStr ''b'')]" example_context]
  by (simp add: get_prop_def example_context_def)




section \<open>The round trip through JSON\<close>

subsection \<open>Numbers\<close>















subsection \<open>Strings\<close>






subsection \<open>Serialized values\<close>












subsection \<open>Steps of the reader\<close>


















subsection \<open>Reading a serialized value\<close>








end
